theory Spec2Isabelle
  imports Complex_Main "HOL-Library.Multiset"
begin

section \<open>Exceptions\<close>

text \<open>
  Every exception the Python source can raise is a value. The source raises
  \<open>RuntimeError\<close> with different messages for different conditions; the message is
  kept as a tag. \<open>AttributeError\<close>, \<open>IndexError\<close>, \<open>KeyError\<close>, \<open>TypeError\<close> and
  \<open>ZeroDivisionError\<close> are the interpreter's own exceptions.
\<close>

datatype runtime_reason =
    NoTypeAttributes
  | OutputPortExceeds
  | InputPortExceeds
  | PortNotConnected
  | ComponentNameExists
  | ObserverNameExists
  | CircularReferences

datatype error =
    ValueError
  | RuntimeError runtime_reason
  | AttributeError
  | IndexError
  | KeyError
  | TypeError
  | ZeroDivisionError

section \<open>data\_types.py\<close>

subsection \<open>IntRange\<close>

text \<open>
  \<open>class IntRange(NamedTuple)\<close> with fields \<open>min\<close> and \<open>max\<close> (renamed, since
  \<open>min\<close> and \<open>max\<close> are HOL constants). Python's integers are unbounded.
\<close>

record IntRange =
  range_min :: int
  range_max :: int

text \<open>
  \<open>return self.min == -1 or value >= self.min and self.max == -1 or value <= self.max\<close>.
  In Python \<open>and\<close> binds tighter than \<open>or\<close>, so the expression is a disjunction of
  three parts.
\<close>

definition in_range :: "IntRange \<Rightarrow> int \<Rightarrow> bool" where
  "in_range r v \<longleftrightarrow>
     range_min r = - 1 \<or> (v \<ge> range_min r \<and> range_max r = - 1) \<or> v \<le> range_max r"

subsection \<open>OpticalPower\<close>

text \<open>
  \<open>class OpticalPower(dict)\<close>: a dictionary from wavelength to power. A Python
  dictionary keeps its keys in insertion order and never holds a key twice, so it is an
  association list whose keys are distinct (\<open>dict_inv\<close>). Wavelengths and powers are
  Python numbers; both are modelled as reals.
\<close>

type_synonym OpticalPower = "(real \<times> real) list"

definition dict_inv :: "('k \<times> 'v) list \<Rightarrow> bool" where
  "dict_inv d \<longleftrightarrow> distinct (map fst d)"

definition keys :: "('k \<times> 'v) list \<Rightarrow> 'k list" where
  "keys d = map fst d"

definition values_of :: "('k \<times> 'v) list \<Rightarrow> 'v list" where
  "values_of d = map snd d"

text \<open>\<open>d[k] = v\<close>: an existing key keeps its position, a new key goes to the end.\<close>

fun setitem :: "('k \<times> 'v) list \<Rightarrow> 'k \<Rightarrow> 'v \<Rightarrow> ('k \<times> 'v) list" where
  "setitem [] k v = [(k, v)]"
| "setitem (p # ps) k v = (if fst p = k then (k, v) # ps else p # setitem ps k v)"

text \<open>
  \<open>__getitem__\<close>: \<open>if key not in self.keys(): return 0\<close>, else the stored value.
\<close>

definition getitem :: "OpticalPower \<Rightarrow> real \<Rightarrow> real" where
  "getitem d k = (case map_of d k of None \<Rightarrow> 0 | Some v \<Rightarrow> v)"

text \<open>
  \<open>copy\<close> builds a new dictionary with the same items. In the value model the copy is
  the same association list; that it is a different object is the subject of the object
  store below.
\<close>

definition copy :: "OpticalPower \<Rightarrow> OpticalPower" where
  "copy d = d"

text \<open>
  \<open>__add__\<close>: \<open>ret = self.copy(); for wavelength in rhs.keys(): ret[wavelength] += rhs[wavelength]\<close>.
  The augmented assignment reads \<open>ret[wavelength]\<close> through \<open>__getitem__\<close> (0 if absent)
  and stores the sum.
\<close>

definition add :: "OpticalPower \<Rightarrow> OpticalPower \<Rightarrow> OpticalPower" where
  "add self rhs =
     fold (\<lambda>wavelength ret. setitem ret wavelength (getitem ret wavelength + getitem rhs wavelength))
          (keys rhs) (copy self)"

definition sub :: "OpticalPower \<Rightarrow> OpticalPower \<Rightarrow> OpticalPower" where
  "sub self rhs =
     fold (\<lambda>wavelength ret. setitem ret wavelength (getitem ret wavelength - getitem rhs wavelength))
          (keys rhs) (copy self)"

text \<open>
  \<open>__mul__\<close>: \<open>ret = self.copy(); for wavelength in ret.keys(): ret[wavelength] *= scalar\<close>.
  The loop only overwrites existing keys, so the key list it walks is that of \<open>self\<close>.
\<close>

definition mul :: "OpticalPower \<Rightarrow> real \<Rightarrow> OpticalPower" where
  "mul self scalar =
     fold (\<lambda>wavelength ret. setitem ret wavelength (getitem ret wavelength * scalar))
          (keys self) (copy self)"

text \<open>
  \<open>__truediv__\<close>: as \<open>__mul__\<close> with \<open>/=\<close>; dividing a stored value by zero raises
  \<open>ZeroDivisionError\<close>, which happens at the first key, so an empty dictionary divides
  by zero without error.
\<close>

definition truediv :: "OpticalPower \<Rightarrow> real \<Rightarrow> error + OpticalPower" where
  "truediv self scalar =
     (if scalar = 0 \<and> keys self \<noteq> [] then Inl ZeroDivisionError
      else Inr (fold (\<lambda>wavelength ret. setitem ret wavelength (getitem ret wavelength / scalar))
                  (keys self) (copy self)))"

subsection \<open>OpticalPower objects in a store\<close>




section \<open>utilities.py\<close>

text \<open>
  \<open>db_to_factor\<close> on a dictionary of named losses: a new dictionary with
  \<open>10 ** (db[loss_type] / 10)\<close> under every key. The components only call it with a
  dictionary. The power \<open>10 ** x\<close> of Python floats is the real power \<open>10 powr x\<close>.
\<close>

definition db_to_factor :: "(string \<times> real) list \<Rightarrow> (string \<times> real) list" where
  "db_to_factor db = map (\<lambda>(loss_type, v). (loss_type, 10 powr (v / 10))) db"

definition factor_to_db :: "(string \<times> real) list \<Rightarrow> (string \<times> real) list" where
  "factor_to_db factor = map (\<lambda>(loss_type, v). (loss_type, 10 * log 10 v)) factor"

section \<open>components.py\<close>

subsection \<open>Ports, values and Python list indexing\<close>

datatype PortType = OPTICAL | ANALOG | DIGITAL

text \<open>\<open>for port_type in PortType\<close> walks the members in the order of their definition.\<close>

definition port_types :: "PortType list" where
  "port_types = [OPTICAL, ANALOG, DIGITAL]"

record PortsCount =
  optical :: int
  analog :: int
  digital :: int

fun ports_count_getitem :: "PortsCount \<Rightarrow> PortType \<Rightarrow> int" where
  "ports_count_getitem c OPTICAL = optical c"
| "ports_count_getitem c ANALOG = analog c"
| "ports_count_getitem c DIGITAL = digital c"

definition PortsCount_of :: "int \<Rightarrow> int \<Rightarrow> int \<Rightarrow> PortsCount" where
  "PortsCount_of x y z = \<lparr>optical = x, analog = y, digital = z\<rparr>"

text \<open>
  Python is dynamically typed: an output slot holds whatever the component stored
  there, an \<open>OpticalPower\<close> dictionary or a number (\<open>float\<close> or \<open>int\<close>, both reals here).
\<close>

datatype pyval = Power OpticalPower | Number real

text \<open>
  \<open>xs[i]\<close> on a Python list: a negative index counts from the end, an index outside
  \<open>-len .. len - 1\<close> raises \<open>IndexError\<close>.
\<close>

definition py_index :: "'a list \<Rightarrow> int \<Rightarrow> nat option" where
  "py_index xs i =
     (let n = int (length xs); j = (if i < 0 then n + i else i)
      in if 0 \<le> j \<and> j < n then Some (nat j) else None)"

definition py_get :: "'a list \<Rightarrow> int \<Rightarrow> error + 'a" where
  "py_get xs i = (case py_index xs i of None \<Rightarrow> Inl IndexError | Some j \<Rightarrow> Inr (xs ! j))"

definition py_set :: "'a list \<Rightarrow> int \<Rightarrow> 'a \<Rightarrow> error + 'a list" where
  "py_set xs i v = (case py_index xs i of None \<Rightarrow> Inl IndexError | Some j \<Rightarrow> Inr (xs[j := v]))"

text \<open>\<open>value * scalar\<close> and \<open>value / scalar\<close> for a value read from a port.\<close>

fun val_mul :: "pyval \<Rightarrow> real \<Rightarrow> pyval" where
  "val_mul (Power d) k = Power (mul d k)"
| "val_mul (Number x) k = Number (x * k)"

fun val_truediv :: "pyval \<Rightarrow> real \<Rightarrow> error + pyval" where
  "val_truediv (Power d) k = (case truediv d k of Inl e \<Rightarrow> Inl e | Inr d' \<Rightarrow> Inr (Power d'))"
| "val_truediv (Number x) k = (if k = 0 then Inl ZeroDivisionError else Inr (Number (x / k)))"

text \<open>
  \<open>lhs + rhs\<close>. With an \<open>OpticalPower\<close> on the left it is \<open>OpticalPower.__add__\<close>, whose
  loop starts with \<open>rhs.keys()\<close>: a number on the right has no \<open>keys\<close> and the call raises
  \<open>AttributeError\<close>. A number on the left and an \<open>OpticalPower\<close> on the right find no
  addition at all (\<open>TypeError\<close>).
\<close>

fun val_add :: "pyval \<Rightarrow> pyval \<Rightarrow> error + pyval" where
  "val_add (Power d) (Power rhs) = Inr (Power (add d rhs))"
| "val_add (Power d) (Number x) = Inl AttributeError"
| "val_add (Number x) (Number y) = Inr (Number (x + y))"
| "val_add (Number x) (Power rhs) = Inl TypeError"

text \<open>\<open>value[wavelength]\<close>: a number cannot be subscripted.\<close>

fun val_getitem :: "pyval \<Rightarrow> real \<Rightarrow> error + real" where
  "val_getitem (Power d) w = Inr (getitem d w)"
| "val_getitem (Number x) w = Inl TypeError"

text \<open>Sequencing of steps that may raise: the first exception ends the computation.\<close>

definition ebind :: "error + 'a \<Rightarrow> ('a \<Rightarrow> error + 'b) \<Rightarrow> error + 'b" where
  "ebind m f = (case m of Inl e \<Rightarrow> Inl e | Inr x \<Rightarrow> f x)"

subsection \<open>Component type attributes\<close>

record ComponentTypeAttributes =
  description :: string
  optical_losses_types :: "string list"
  ports_in_ranges :: "PortType \<Rightarrow> IntRange"
  ports_out_ranges :: "PortType \<Rightarrow> IntRange"

text \<open>
  The subclasses of \<open>Component\<close>. The constructor carries the instance fields the
  subclass adds (\<open>_v_pi\<close>, \<open>_wavelengths\<close>, \<open>_gain\<close>, \<open>_wavelength\<close> and \<open>_power\<close>,
  \<open>_voltage\<close>, \<open>_length_um\<close>).
\<close>

datatype variant =
    Eom real
  | Splitter
  | Demux "real list"
  | Mux
  | Photodetector real
  | Laser real real
  | VoltageSource real
  | Waveguide real

definition IntRange_of :: "int \<Rightarrow> int \<Rightarrow> IntRange" where
  "IntRange_of lo hi = \<lparr>range_min = lo, range_max = hi\<rparr>"

definition ranges3 :: "IntRange \<Rightarrow> IntRange \<Rightarrow> IntRange \<Rightarrow> PortType \<Rightarrow> IntRange" where
  "ranges3 o_r a_r d_r pt = (case pt of OPTICAL \<Rightarrow> o_r | ANALOG \<Rightarrow> a_r | DIGITAL \<Rightarrow> d_r)"

text \<open>The class attribute \<open>_component_type_attributes\<close> of each subclass, as in the source.\<close>

fun component_type_attributes :: "variant \<Rightarrow> ComponentTypeAttributes" where
  "component_type_attributes (Eom _) =
     \<lparr>description = ''EOM'', optical_losses_types = [''insertion''],
      ports_in_ranges = ranges3 (IntRange_of 1 1) (IntRange_of 1 1) (IntRange_of 0 0),
      ports_out_ranges = ranges3 (IntRange_of 1 1) (IntRange_of 0 0) (IntRange_of 0 0)\<rparr>"
| "component_type_attributes Splitter =
     \<lparr>description = ''Splitter'', optical_losses_types = [''insertion''],
      ports_in_ranges = ranges3 (IntRange_of 1 1) (IntRange_of 0 0) (IntRange_of 0 0),
      ports_out_ranges = ranges3 (IntRange_of 1 (- 1)) (IntRange_of 0 0) (IntRange_of 0 0)\<rparr>"
| "component_type_attributes (Demux _) =
     \<lparr>description = ''Demux'', optical_losses_types = [''insertion''],
      ports_in_ranges = ranges3 (IntRange_of 1 1) (IntRange_of 0 0) (IntRange_of 0 0),
      ports_out_ranges = ranges3 (IntRange_of 1 (- 1)) (IntRange_of 0 0) (IntRange_of 0 0)\<rparr>"
| "component_type_attributes Mux =
     \<lparr>description = ''Mux'', optical_losses_types = [''insertion''],
      ports_in_ranges = ranges3 (IntRange_of 1 (- 1)) (IntRange_of 0 0) (IntRange_of 0 0),
      ports_out_ranges = ranges3 (IntRange_of 1 1) (IntRange_of 0 0) (IntRange_of 0 0)\<rparr>"
| "component_type_attributes (Photodetector _) =
     \<lparr>description = ''Photodetector'', optical_losses_types = [],
      ports_in_ranges = ranges3 (IntRange_of 1 1) (IntRange_of 1 1) (IntRange_of 0 0),
      ports_out_ranges = ranges3 (IntRange_of 1 1) (IntRange_of 0 0) (IntRange_of 0 0)\<rparr>"
| "component_type_attributes (Laser _ _) =
     \<lparr>description = ''Laser'', optical_losses_types = [],
      ports_in_ranges = ranges3 (IntRange_of 0 0) (IntRange_of 0 0) (IntRange_of 0 0),
      ports_out_ranges = ranges3 (IntRange_of 1 1) (IntRange_of 0 0) (IntRange_of 0 0)\<rparr>"
| "component_type_attributes (VoltageSource _) =
     \<lparr>description = ''Voltage Source'', optical_losses_types = [],
      ports_in_ranges = ranges3 (IntRange_of 0 0) (IntRange_of 0 0) (IntRange_of 0 0),
      ports_out_ranges = ranges3 (IntRange_of 0 0) (IntRange_of 1 1) (IntRange_of 0 0)\<rparr>"
| "component_type_attributes (Waveguide _) =
     \<lparr>description = ''Waveguide'', optical_losses_types = [''propagation''],
      ports_in_ranges = ranges3 (IntRange_of 1 1) (IntRange_of 0 0) (IntRange_of 0 0),
      ports_out_ranges = ranges3 (IntRange_of 1 1) (IntRange_of 0 0) (IntRange_of 0 0)\<rparr>"

subsection \<open>Component\<close>

text \<open>
  Components are objects that refer to each other, so they live in a store and a
  reference to a component is its address. A \<open>ConnectionEndpoint\<close> holds such a
  reference and a port index; an unset slot of a connection table holds \<open>None\<close>.
\<close>

type_synonym cref = nat

record ConnectionEndpoint =
  component :: cref
  port_id :: int

text \<open>The field \<open>outputs\<close> is the source's \<open>_output\<close>.\<close>

record Component =
  kind :: variant
  connections_in :: "PortType \<Rightarrow> ConnectionEndpoint option list"
  connections_out :: "PortType \<Rightarrow> ConnectionEndpoint option list"
  outputs :: "PortType \<Rightarrow> pyval list"
  losses_db :: "(string \<times> real) list option"
  losses_factor :: "(string \<times> real) list option"

type_synonym store = "cref \<Rightarrow> Component"

text \<open>
  The loop over the required loss types in \<open>Component.__init__\<close>:
  \<open>if not optical_losses_type in optical_losses_db.keys(): ... optical_losses_db[optical_losses_type] = 0.0\<close>.
  With \<open>optical_losses_db = None\<close> the call of \<open>keys\<close> raises \<open>AttributeError\<close>; the
  warning has no effect on the result.
\<close>

fun default_losses :: "string list \<Rightarrow> (string \<times> real) list option \<Rightarrow> error + (string \<times> real) list option" where
  "default_losses [] db = Inr db"
| "default_losses (t # ts) None = Inl AttributeError"
| "default_losses (t # ts) (Some db) =
     default_losses ts (Some (if t \<in> set (keys db) then db else setitem db t 0))"

text \<open>\<open>[x] * n\<close>: \<open>n\<close> copies, none for \<open>n \<le> 0\<close>.\<close>

definition py_replicate :: "int \<Rightarrow> 'a \<Rightarrow> 'a list" where
  "py_replicate n x = replicate (nat n) x"

text \<open>
  \<open>Component.__init__\<close>, called by a subclass with its port counts. \<open>self\<close> is an
  instance of the subclass, so \<open>self._component_type_attributes\<close> is the attribute of
  that subclass (never \<open>None\<close>: the base class is abstract). The range loop only reads
  \<open>ports_in_ranges\<close> and \<open>ports_in_count\<close>.
\<close>

definition Component_init :: "variant \<Rightarrow> PortsCount \<Rightarrow> PortsCount \<Rightarrow> (string \<times> real) list option \<Rightarrow> error + Component" where
  "Component_init self_kind ports_in_count ports_out_count optical_losses_db =
     (let attrs = component_type_attributes self_kind in
      if \<exists>port_type \<in> set port_types.
           \<not> in_range (ports_in_ranges attrs port_type) (ports_count_getitem ports_in_count port_type)
      then Inl ValueError
      else case default_losses (optical_losses_types attrs) optical_losses_db of
        Inl e \<Rightarrow> Inl e
      | Inr db \<Rightarrow>
          Inr \<lparr>kind = self_kind,
               connections_in = (\<lambda>pt. py_replicate (ports_count_getitem ports_in_count pt) None),
               connections_out = (\<lambda>pt. py_replicate (ports_count_getitem ports_out_count pt) None),
               outputs = (\<lambda>pt. py_replicate (ports_count_getitem ports_out_count pt)
                                (case pt of OPTICAL \<Rightarrow> Power [] | ANALOG \<Rightarrow> Number 0 | DIGITAL \<Rightarrow> Number 0)),
               losses_db = (case db of None \<Rightarrow> None | Some d \<Rightarrow> if d = [] then None else Some d),
               losses_factor = (case db of None \<Rightarrow> None | Some d \<Rightarrow> if d = [] then None else Some (db_to_factor d))\<rparr>)"

text \<open>The constructors of the subclasses.\<close>

definition Eom_init :: "real \<Rightarrow> (string \<times> real) list option \<Rightarrow> error + Component" where
  "Eom_init v_pi losses =
     Component_init (Eom v_pi) (PortsCount_of 1 1 0) (PortsCount_of 1 0 0) losses"

definition Splitter_init :: "int \<Rightarrow> (string \<times> real) list option \<Rightarrow> error + Component" where
  "Splitter_init size0 losses =
     Component_init Splitter (PortsCount_of 1 0 0) (PortsCount_of size0 0 0) losses"

definition Demux_init :: "real list \<Rightarrow> (string \<times> real) list option \<Rightarrow> error + Component" where
  "Demux_init wavelengths losses =
     Component_init (Demux wavelengths) (PortsCount_of 1 0 0)
       (PortsCount_of (int (length wavelengths)) 0 0) losses"

definition Mux_init :: "int \<Rightarrow> (string \<times> real) list option \<Rightarrow> error + Component" where
  "Mux_init input_count losses =
     Component_init Mux (PortsCount_of input_count 0 0) (PortsCount_of 1 0 0) losses"

definition Photodetector_init :: "real \<Rightarrow> error + Component" where
  "Photodetector_init gain =
     Component_init (Photodetector gain) (PortsCount_of 1 0 0) (PortsCount_of 0 1 0) None"

text \<open>
  \<open>Laser\<close> and \<open>VoltageSource\<close> set their output in the constructor, by
  \<open>_update_output\<close>: \<open>self._output[...][0] = ...\<close>.
\<close>

definition set_output :: "Component \<Rightarrow> PortType \<Rightarrow> int \<Rightarrow> pyval \<Rightarrow> error + Component" where
  "set_output c pt i v =
     (case py_set (outputs c pt) i v of
        Inl e \<Rightarrow> Inl e
      | Inr outs \<Rightarrow> Inr (c\<lparr>outputs := (outputs c)(pt := outs)\<rparr>))"

definition Laser_init :: "real \<Rightarrow> real \<Rightarrow> error + Component" where
  "Laser_init wavelength pw =
     (case Component_init (Laser wavelength pw) (PortsCount_of 0 0 0) (PortsCount_of 1 0 0) None of
        Inl e \<Rightarrow> Inl e
      | Inr c \<Rightarrow> set_output c OPTICAL 0 (Power [(wavelength, pw)]))"

definition VoltageSource_init :: "real \<Rightarrow> error + Component" where
  "VoltageSource_init voltage =
     (case Component_init (VoltageSource voltage) (PortsCount_of 0 0 0) (PortsCount_of 0 1 0) None of
        Inl e \<Rightarrow> Inl e
      | Inr c \<Rightarrow> set_output c ANALOG 0 (Number voltage))"

definition Waveguide_init :: "real \<Rightarrow> (string \<times> real) list option \<Rightarrow> error + Component" where
  "Waveguide_init length_um losses =
     Component_init (Waveguide length_um) (PortsCount_of 1 0 0) (PortsCount_of 1 0 0) losses"

subsection \<open>Reading ports and connecting\<close>

text \<open>
  \<open>get_output\<close> returns the stored value (the \<open>copy\<close> flag only decides whether the
  caller gets a new dictionary object, which no component changes in place).
  \<open>get_input\<close> follows the endpoint in the input slot; \<open>if connection:\<close> is false for
  \<open>None\<close> and true for every endpoint.
\<close>

definition get_output :: "store \<Rightarrow> cref \<Rightarrow> PortType \<Rightarrow> int \<Rightarrow> error + pyval" where
  "get_output h self pt pid = py_get (outputs (h self) pt) pid"

definition get_input :: "store \<Rightarrow> cref \<Rightarrow> PortType \<Rightarrow> int \<Rightarrow> error + pyval" where
  "get_input h self pt pid =
     ebind (py_get (connections_in (h self) pt) pid) (\<lambda>connection.
       case connection of
         None \<Rightarrow> Inl (RuntimeError PortNotConnected)
       | Some ep \<Rightarrow> get_output h (component ep) pt (port_id ep))"

text \<open>
  \<open>self.losses_factor[name]\<close>: \<open>TypeError\<close> when the attribute is \<open>None\<close>, \<open>KeyError\<close>
  when the dictionary lacks the name.
\<close>

definition loss_factor :: "Component \<Rightarrow> string \<Rightarrow> error + real" where
  "loss_factor c name =
     (case losses_factor c of
        None \<Rightarrow> Inl TypeError
      | Some d \<Rightarrow> (case map_of d name of None \<Rightarrow> Inl KeyError | Some v \<Rightarrow> Inr v))"

text \<open>
  The \<open>else\<close> branch of \<open>connect_to\<close>: the direct connection. The two \<open>Warning(...)\<close>
  expressions build an object and drop it; what remains of them is the read of the slot,
  which raises \<open>IndexError\<close> for an index below \<open>-len\<close>. The source and the target may
  be the same component, so the target is read from the store after the source was
  written.
\<close>

definition connect_direct :: "store \<Rightarrow> cref \<Rightarrow> cref \<Rightarrow> PortType \<Rightarrow> int \<Rightarrow> int \<Rightarrow> error + store" where
  "connect_direct h self tgt pt source_port_id target_port_id =
     (let outs = connections_out (h self) pt in
      if source_port_id \<ge> int (length outs) then Inl (RuntimeError OutputPortExceeds)
      else
        ebind (py_get outs source_port_id) (\<lambda>_.
        ebind (py_set outs source_port_id (Some \<lparr>component = tgt, port_id = target_port_id\<rparr>)) (\<lambda>outs'.
          let h1 = h(self := (h self)\<lparr>connections_out := (connections_out (h self))(pt := outs')\<rparr>);
              ins = connections_in (h1 tgt) pt in
          if target_port_id \<ge> int (length ins) then Inl (RuntimeError InputPortExceeds)
          else
            ebind (py_get ins target_port_id) (\<lambda>_.
            ebind (py_set ins target_port_id (Some \<lparr>component = self, port_id = source_port_id\<rparr>)) (\<lambda>ins'.
              Inr (h1(tgt := (h1 tgt)\<lparr>connections_in := (connections_in (h1 tgt))(pt := ins')\<rparr>)))))))"

text \<open>
  \<open>connect_to\<close>. With a waveguide and an optical port type it makes the two direct
  connections \<open>self.connect_to(waveguide)\<close> (all defaults: optical, ports 0 and 0) and
  \<open>waveguide.connect_to(target, target_port_id=target_port_id)\<close>. A component object is
  always true in \<open>if waveguide\<close>.
\<close>

definition connect_to :: "store \<Rightarrow> cref \<Rightarrow> cref \<Rightarrow> PortType \<Rightarrow> int \<Rightarrow> int \<Rightarrow> cref option \<Rightarrow> error + store" where
  "connect_to h self tgt pt source_port_id target_port_id waveguide =
     (case waveguide of
        Some wg \<Rightarrow>
          if pt = OPTICAL
          then ebind (connect_direct h self wg OPTICAL 0 0) (\<lambda>h1.
                 connect_direct h1 wg tgt OPTICAL 0 target_port_id)
          else connect_direct h self tgt pt source_port_id target_port_id
      | None \<Rightarrow> connect_direct h self tgt pt source_port_id target_port_id)"

subsection \<open>The update functions of the subclasses\<close>

definition store_output :: "store \<Rightarrow> cref \<Rightarrow> PortType \<Rightarrow> int \<Rightarrow> pyval \<Rightarrow> error + store" where
  "store_output h self pt i v = ebind (set_output (h self) pt i v) (\<lambda>c. Inr (h(self := c)))"

text \<open>
  \<open>math.sin(modulation_voltage / self._v_pi)\<close>: the division raises for a zero \<open>v_pi\<close>;
  an \<open>OpticalPower\<close> divided by a number is an \<open>OpticalPower\<close>, which \<open>math.sin\<close> rejects.
\<close>

definition sin_ratio :: "pyval \<Rightarrow> real \<Rightarrow> error + real" where
  "sin_ratio modulation_voltage v_pi =
     ebind (val_truediv modulation_voltage v_pi) (\<lambda>q.
       case q of Number x \<Rightarrow> Inr (sin x) | Power d \<Rightarrow> Inl TypeError)"

definition Eom_update :: "store \<Rightarrow> cref \<Rightarrow> real \<Rightarrow> error + store" where
  "Eom_update h self v_pi =
     ebind (get_input h self ANALOG 0) (\<lambda>modulation_voltage.
     ebind (get_input h self OPTICAL 0) (\<lambda>input_light.
     ebind (store_output h self OPTICAL 0 input_light) (\<lambda>h1.
     ebind (get_output h1 self OPTICAL 0) (\<lambda>cur.
     ebind (sin_ratio modulation_voltage v_pi) (\<lambda>s.
     ebind (loss_factor (h1 self) ''insertion'') (\<lambda>f.
       store_output h1 self OPTICAL 0 (val_mul cur (s ^ 2 * f))))))))"

text \<open>
  \<open>Splitter.update\<close>: a list comprehension over the output connection table; its
  element expression is evaluated once per output port (never for an empty table), and
  every evaluation gives the same result since nothing is written in between.
\<close>

definition Splitter_update :: "store \<Rightarrow> cref \<Rightarrow> error + store" where
  "Splitter_update h self =
     (let n = length (connections_out (h self) OPTICAL) in
      if n = 0 then Inr (h(self := (h self)\<lparr>outputs := (outputs (h self))(OPTICAL := [])\<rparr>))
      else
        ebind (get_input h self OPTICAL 0) (\<lambda>input_light.
        ebind (val_truediv input_light (real n)) (\<lambda>q.
        ebind (loss_factor (h self) ''insertion'') (\<lambda>f.
          Inr (h(self := (h self)\<lparr>outputs := (outputs (h self))(OPTICAL := replicate n (val_mul q f))\<rparr>))))))"

text \<open>
  \<open>Demux.update\<close>: \<open>for port, wavelength in enumerate(self._wavelengths)\<close> stores the
  number \<open>input_light[wavelength] * self.losses_factor["insertion"]\<close> in the optical
  output slot \<open>port\<close>.
\<close>

fun Demux_loop :: "Component \<Rightarrow> pyval \<Rightarrow> (nat \<times> real) list \<Rightarrow> error + Component" where
  "Demux_loop c input_light [] = Inr c"
| "Demux_loop c input_light ((port, wavelength) # rest) =
     ebind (val_getitem input_light wavelength) (\<lambda>p.
     ebind (loss_factor c ''insertion'') (\<lambda>f.
     ebind (set_output c OPTICAL (int port) (Number (p * f))) (\<lambda>c'.
       Demux_loop c' input_light rest)))"

definition Demux_update :: "store \<Rightarrow> cref \<Rightarrow> real list \<Rightarrow> error + store" where
  "Demux_update h self wavelengths =
     ebind (get_input h self OPTICAL 0) (\<lambda>input_light.
     ebind (Demux_loop (h self) input_light (enumerate 0 wavelengths)) (\<lambda>c.
       Inr (h(self := c))))"

text \<open>
  \<open>Mux.update\<close>: \<open>for index in range(len(self.connections_in))\<close>. \<open>connections_in\<close> is
  the dictionary keyed by port type, so its length is the number of port types, whatever
  the number of optical inputs.
\<close>

fun Mux_loop :: "store \<Rightarrow> cref \<Rightarrow> nat list \<Rightarrow> error + store" where
  "Mux_loop h self [] = Inr h"
| "Mux_loop h self (index # rest) =
     ebind (get_input h self OPTICAL (int index)) (\<lambda>input_light.
     ebind (get_output h self OPTICAL 0) (\<lambda>cur.
     ebind (loss_factor (h self) ''insertion'') (\<lambda>f.
     ebind (val_add cur (val_mul input_light f)) (\<lambda>total.
     ebind (store_output h self OPTICAL 0 total) (\<lambda>h1.
       Mux_loop h1 self rest)))))"

definition Mux_update :: "store \<Rightarrow> cref \<Rightarrow> error + store" where
  "Mux_update h self =
     ebind (store_output h self OPTICAL 0 (Power [])) (\<lambda>h1.
       Mux_loop h1 self [0 ..< length port_types])"

text \<open>
  \<open>Photodetector.update\<close>: \<open>sum(self.get_input(PortType.OPTICAL, 0).values()) * self.gain\<close>;
  a number has no \<open>values\<close>.
\<close>

definition Photodetector_update :: "store \<Rightarrow> cref \<Rightarrow> real \<Rightarrow> error + store" where
  "Photodetector_update h self gain =
     ebind (get_input h self OPTICAL 0) (\<lambda>input_light.
       case input_light of
         Power d \<Rightarrow> store_output h self ANALOG 0 (Number (sum_list (values_of d) * gain))
       | Number x \<Rightarrow> Inl AttributeError)"

definition Waveguide_update :: "store \<Rightarrow> cref \<Rightarrow> error + store" where
  "Waveguide_update h self =
     ebind (get_input h self OPTICAL 0) (\<lambda>input_light.
     ebind (loss_factor (h self) ''propagation'') (\<lambda>f.
       store_output h self OPTICAL 0 (val_mul input_light f)))"

text \<open>\<open>component.update()\<close>: the method of the component's class.\<close>

definition update_component :: "store \<Rightarrow> cref \<Rightarrow> error + store" where
  "update_component h self =
     (case kind (h self) of
        Eom v_pi \<Rightarrow> Eom_update h self v_pi
      | Splitter \<Rightarrow> Splitter_update h self
      | Demux wavelengths \<Rightarrow> Demux_update h self wavelengths
      | Mux \<Rightarrow> Mux_update h self
      | Photodetector gain \<Rightarrow> Photodetector_update h self gain
      | Laser _ _ \<Rightarrow> Inr h
      | VoltageSource _ \<Rightarrow> Inr h
      | Waveguide _ \<Rightarrow> Waveguide_update h self)"

section \<open>simulation.py\<close>

subsection \<open>Names\<close>

text \<open>\<open>str(index)\<close> for a non-negative integer: its decimal digits.\<close>

definition digit_char :: "nat \<Rightarrow> char" where
  "digit_char d = char_of (48 + d)"

fun str :: "nat \<Rightarrow> string" where
  "str n = (if n < 10 then [digit_char n] else str (n div 10) @ [digit_char (n mod 10)])"

declare str.simps [simp del]

lemma str_length_bound: "length (str n) \<le> L \<Longrightarrow> n < 10 ^ L"
proof (induction n arbitrary: L rule: str.induct)
  case (1 n)
  show ?case
  proof (cases "n < 10")
    case True
    with "1.prems" have "1 \<le> L" by (subst (asm) str.simps) simp
    then have "(10::nat) ^ 1 \<le> 10 ^ L" by (intro power_increasing) auto
    with True show ?thesis by simp
  next
    case False
    with "1.prems" have len: "length (str (n div 10)) \<le> L - 1" and L: "1 \<le> L"
      by (subst (asm) str.simps, simp)+
    from "1.IH" [OF False len] have "n div 10 < 10 ^ (L - 1)" .
    then have "n < 10 * 10 ^ (L - 1)" by simp
    also have "\<dots> = 10 ^ L" using L by (cases L) auto
    finally show ?thesis .
  qed
qed

definition max_length :: "string list \<Rightarrow> nat" where
  "max_length ks = fold max (map length ks) 0"

lemma fold_max_ge: "(m::nat) \<le> fold max xs m"
  by (induction xs arbitrary: m) (auto intro: order_trans [OF max.cobounded2])

lemma fold_max_mem: "(x::nat) \<in> set xs \<Longrightarrow> x \<le> fold max xs m"
proof (induction xs arbitrary: m)
  case Nil
  then show ?case by simp
next
  case (Cons y ys)
  show ?case
  proof (cases "x = y")
    case True
    have "x \<le> max x m" by simp
    also have "\<dots> \<le> fold max ys (max x m)" by (rule fold_max_ge)
    finally show ?thesis using True by simp
  next
    case False
    with Cons show ?thesis by simp
  qed
qed

text \<open>
  \<open>_first_available_name\<close>: \<open>while True\<close> with \<open>index\<close> counting up from 0 until
  \<open>description + " " + str(index)\<close> is not a key. The loop ends because the names grow
  longer than every key.
\<close>

function first_available_name :: "string \<Rightarrow> string list \<Rightarrow> nat \<Rightarrow> string" where
  "first_available_name descr ks index =
     (let name = descr @ '' '' @ str index
      in if name \<notin> set ks then name else first_available_name descr ks (index + 1))"
  by pat_completeness auto
termination
proof (relation "measure (\<lambda>(descr, ks, index). 10 ^ max_length ks - index)", goal_cases)
  case 1
  show ?case by simp
next
  case (2 descr ks index name)
  then have "descr @ '' '' @ str index \<in> set ks" by simp
  then have "length (descr @ '' '' @ str index) \<in> length ` set ks" by (rule imageI)
  then have "length (descr @ '' '' @ str index) \<le> max_length ks"
    unfolding max_length_def by (intro fold_max_mem) (simp only: set_map)
  then have "length (str index) \<le> max_length ks" by simp
  then have "index < 10 ^ max_length ks" by (rule str_length_bound)
  then show ?case by simp
qed

declare first_available_name.simps [simp del]

subsection \<open>Observer and PhotonicSimulation\<close>

text \<open>
  A parameter annotated \<open>Component | str\<close> takes a component object or a name.
\<close>

datatype component_arg = ByRef cref | ByName string

text \<open>
  \<open>Observer\<close>; the fields are \<open>_data\<close>, \<open>_port_type\<close>, \<open>_target\<close> and \<open>_port_id\<close>.
  The constructor stores the target as it is given.
\<close>

record Observer =
  data :: "pyval list"
  obs_port_type :: PortType
  obs_target :: component_arg
  obs_port_id :: int

definition Observer_init :: "component_arg \<Rightarrow> PortType \<Rightarrow> int \<Rightarrow> Observer" where
  "Observer_init tgt pt pid = \<lparr>data = [], obs_port_type = pt, obs_target = tgt, obs_port_id = pid\<rparr>"

definition reset :: "Observer \<Rightarrow> Observer" where
  "reset ob = ob\<lparr>data := []\<rparr>"

text \<open>
  \<open>record\<close>: \<open>self._data.append(self._target.get_output(self._port_type, self._port_id))\<close>.
  A target that is a string has no \<open>get_output\<close>.
\<close>

definition record_sample :: "store \<Rightarrow> Observer \<Rightarrow> error + Observer" where
  "record_sample h ob =
     (case obs_target ob of
        ByName _ \<Rightarrow> Inl AttributeError
      | ByRef c \<Rightarrow>
          ebind (get_output h c (obs_port_type ob) (obs_port_id ob)) (\<lambda>v.
            Inr (ob\<lparr>data := data ob @ [v]\<rparr>)))"

text \<open>
  \<open>PhotonicSimulation\<close>: \<open>_components\<close> is an \<open>OrderedDict\<close> from name to component,
  \<open>_observers\<close> a dictionary from name to observer. The simulation and the component
  store together are the state the operations work on.
\<close>

record PhotonicSimulation =
  components :: "(string \<times> cref) list"
  observers :: "(string \<times> Observer) list"
  dependencies_resolved :: bool

record world =
  heap :: store
  sim :: PhotonicSimulation

definition PhotonicSimulation_init :: PhotonicSimulation where
  "PhotonicSimulation_init = \<lparr>components = [], observers = [], dependencies_resolved = False\<rparr>"

text \<open>
  \<open>add_component\<close>: \<open>if not name\<close> holds for \<open>None\<close> and for the empty string.
\<close>

definition add_component :: "world \<Rightarrow> cref \<Rightarrow> string option \<Rightarrow> error + (string \<times> world)" where
  "add_component w c name =
     (let ks = keys (components (sim w));
          auto_name = first_available_name (description (component_type_attributes (kind (heap w c)))) ks 0;
          name' = (case name of None \<Rightarrow> auto_name | Some n \<Rightarrow> if n = [] then auto_name else n)
      in if name' \<in> set ks then Inl (RuntimeError ComponentNameExists)
         else Inr (name', w\<lparr>sim := (sim w)\<lparr>components := setitem (components (sim w)) name' c,
                                            dependencies_resolved := False\<rparr>\<rparr>))"

text \<open>\<open>self._components[name]\<close> for an argument given by name.\<close>

fun lookup_component :: "PhotonicSimulation \<Rightarrow> component_arg \<Rightarrow> error + cref" where
  "lookup_component s (ByRef c) = Inr c"
| "lookup_component s (ByName n) =
     (case map_of (components s) n of None \<Rightarrow> Inl KeyError | Some c \<Rightarrow> Inr c)"

text \<open>
  \<open>connect\<close>: it delegates to \<open>source.connect_to\<close> and, when a waveguide was given,
  registers the waveguide with \<open>add_component\<close>. It does nothing else.
\<close>

definition connect :: "world \<Rightarrow> component_arg \<Rightarrow> component_arg \<Rightarrow> PortType \<Rightarrow> int \<Rightarrow> int \<Rightarrow> cref option \<Rightarrow> error + world" where
  "connect w source tgt pt source_port_id target_port_id waveguide =
     ebind (lookup_component (sim w) source) (\<lambda>src.
     ebind (lookup_component (sim w) tgt) (\<lambda>dst.
     ebind (connect_to (heap w) src dst pt source_port_id target_port_id waveguide) (\<lambda>h1.
       case waveguide of
         None \<Rightarrow> Inr (w\<lparr>heap := h1\<rparr>)
       | Some wg \<Rightarrow> ebind (add_component (w\<lparr>heap := h1\<rparr>) wg None) (\<lambda>r. Inr (snd r)))))"

definition create_observer :: "world \<Rightarrow> component_arg \<Rightarrow> PortType \<Rightarrow> int \<Rightarrow> string option \<Rightarrow> error + (string \<times> world)" where
  "create_observer w tgt pt pid name =
     (let ks = keys (observers (sim w));
          auto_name = first_available_name ''Observer'' ks 0;
          name' = (case name of None \<Rightarrow> auto_name | Some n \<Rightarrow> if n = [] then auto_name else n)
      in if name' \<in> set ks then Inl (RuntimeError ObserverNameExists)
         else Inr (name', w\<lparr>sim := (sim w)\<lparr>observers :=
                     setitem (observers (sim w)) name' (Observer_init tgt pt pid)\<rparr>\<rparr>))"

subsection \<open>Dependency resolution\<close>

text \<open>
  The two inner loops of \<open>_resolve_dependencies\<close> walk the input connection tables of
  the component, port type by port type, and read \<open>connection.component\<close> of every slot.
  An unset slot holds \<open>None\<close>, which has no attribute \<open>component\<close>. The membership test
  on the list of components compares object identities.
\<close>

fun scan_connections :: "ConnectionEndpoint option list \<Rightarrow> cref list \<Rightarrow> bool \<Rightarrow> error + bool" where
  "scan_connections [] unresolved_components has_dependencies = Inr has_dependencies"
| "scan_connections (None # rest) unresolved_components has_dependencies = Inl AttributeError"
| "scan_connections (Some connection # rest) unresolved_components has_dependencies =
     scan_connections rest unresolved_components
       (if component connection \<in> set unresolved_components then True else has_dependencies)"

definition input_connections :: "store \<Rightarrow> cref \<Rightarrow> ConnectionEndpoint option list" where
  "input_connections h c = concat (map (connections_in (h c)) port_types)"

text \<open>\<open>OrderedDict.move_to_end(key)\<close>: the item of the key becomes the last one.\<close>

definition move_to_end :: "('k \<times> 'v) list \<Rightarrow> 'k \<Rightarrow> error + ('k \<times> 'v) list" where
  "move_to_end d k =
     (case map_of d k of
        None \<Rightarrow> Inl KeyError
      | Some v \<Rightarrow> Inr (filter (\<lambda>p. fst p \<noteq> k) d @ [(k, v)]))"

text \<open>
  The \<open>while\<close> loop of \<open>_resolve_dependencies\<close>, with the loop variables
  \<open>current_index\<close> and \<open>iterated_componentes\<close> and the ordered dictionary as arguments.
  The loop condition and the cycle test are equalities, as in the source; from a state
  that the loop itself never reaches it need not end, so the result is an option and
  \<open>None\<close> stands for a loop that runs forever.
\<close>

partial_function (option) resolve_loop ::
  "store \<Rightarrow> (string \<times> cref) list \<Rightarrow> nat \<Rightarrow> nat \<Rightarrow> (error + (string \<times> cref) list) option" where
  "resolve_loop h comps current_index iterated_componentes =
     (if current_index = length comps then Some (Inr comps)
      else
        let unresolved_components = drop current_index (values_of comps) in
        if iterated_componentes = length unresolved_components
        then Some (Inl (RuntimeError CircularReferences))
        else
          case py_get comps (int current_index) of
            Inl e \<Rightarrow> Some (Inl e)
          | Inr (name, c) \<Rightarrow>
              (case scan_connections (input_connections h c) unresolved_components False of
                 Inl e \<Rightarrow> Some (Inl e)
               | Inr has_dependencies \<Rightarrow>
                   if has_dependencies
                   then (case move_to_end comps name of
                           Inl e \<Rightarrow> Some (Inl e)
                         | Inr comps' \<Rightarrow> resolve_loop h comps' current_index (iterated_componentes + 1))
                   else resolve_loop h comps (current_index + 1) 0))"

definition resolve_dependencies :: "world \<Rightarrow> (error + world) option" where
  "resolve_dependencies w =
     (case resolve_loop (heap w) (components (sim w)) 0 0 of
        None \<Rightarrow> None
      | Some (Inl e) \<Rightarrow> Some (Inl e)
      | Some (Inr comps) \<Rightarrow>
          Some (Inr (w\<lparr>sim := (sim w)\<lparr>components := comps, dependencies_resolved := True\<rparr>\<rparr>)))"

subsection \<open>The tick and the observer data\<close>

fun update_components :: "store \<Rightarrow> cref list \<Rightarrow> error + store" where
  "update_components h [] = Inr h"
| "update_components h (c # cs) = ebind (update_component h c) (\<lambda>h1. update_components h1 cs)"

fun record_observers :: "store \<Rightarrow> (string \<times> Observer) list \<Rightarrow> error + (string \<times> Observer) list" where
  "record_observers h [] = Inr []"
| "record_observers h ((name, ob) # rest) =
     ebind (record_sample h ob) (\<lambda>ob'.
     ebind (record_observers h rest) (\<lambda>rest'. Inr ((name, ob') # rest')))"

text \<open>
  \<open>update\<close>: resolve the order if the flag is not set, update every component in the
  order of the dictionary, then let every observer record. An exception ends the tick;
  the state it leaves behind is not part of the model.
\<close>

definition update :: "world \<Rightarrow> (error + world) option" where
  "update w =
     (case (if \<not> dependencies_resolved (sim w) then resolve_dependencies w else Some (Inr w)) of
        None \<Rightarrow> None
      | Some (Inl e) \<Rightarrow> Some (Inl e)
      | Some (Inr w1) \<Rightarrow>
          Some (ebind (update_components (heap w1) (values_of (components (sim w1)))) (\<lambda>h1.
                ebind (record_observers h1 (observers (sim w1))) (\<lambda>obs.
                  Inr (w1\<lparr>heap := h1, sim := (sim w1)\<lparr>observers := obs\<rparr>\<rparr>)))))"


text \<open>
  \<open>observer_data\<close>: \<open>[observer.data for observer in self._observers]\<close>. Iterating over a
  dictionary yields its keys, so \<open>observer\<close> is bound to each observer's name, a string;
  the attribute \<open>data\<close> is read from that object.
\<close>

datatype pyobj = StrObj string | ObserverObj Observer

fun attr_data :: "pyobj \<Rightarrow> error + pyval list" where
  "attr_data (ObserverObj ob) = Inr (data ob)"
| "attr_data (StrObj s) = Inl AttributeError"

fun collect :: "('a \<Rightarrow> error + 'b) \<Rightarrow> 'a list \<Rightarrow> error + 'b list" where
  "collect f [] = Inr []"
| "collect f (x # xs) = ebind (f x) (\<lambda>y. ebind (collect f xs) (\<lambda>ys. Inr (y # ys)))"

definition observer_data :: "PhotonicSimulation \<Rightarrow> error + pyval list list" where
  "observer_data s = collect attr_data (map StrObj (keys (observers s)))"

section \<open>The dependency graph and the observer histories\<close>

text \<open>
  The notions the properties below are stated with. Component \<open>a\<close> depends on
  component \<open>b\<close> when an input slot of \<open>a\<close> holds an endpoint whose component is \<open>b\<close>;
  \<open>feeders h a\<close> lists these \<open>b\<close>. The dependency graph over a set of registered
  components has an edge from \<open>b\<close> to \<open>a\<close> for every such pair inside the set.
\<close>

definition feeders :: "store \<Rightarrow> cref \<Rightarrow> cref list" where
  "feeders h c =
     concat (map (\<lambda>connection. case connection of None \<Rightarrow> [] | Some ep \<Rightarrow> [component ep])
               (input_connections h c))"



definition has_unset_slot :: "store \<Rightarrow> cref \<Rightarrow> bool" where
  "has_unset_slot h c \<longleftrightarrow> None \<in> set (input_connections h c)"







section \<open>Example circuits\<close>

text \<open>
  Concrete components and simulations, built with the constructors and the operations
  of the simulation. The store holds a laser (1550 nm, 1 mW) at address 0 (and at every
  address not listed), waveguides at 1 and 4, a photodetector at 2, a demultiplexer for
  three wavelengths at 5 and multiplexers with 1, 3 and 4 inputs at 3, 6 and 7; all
  losses are 0 dB.
\<close>

definition laser_c :: Component where
  "laser_c = projr (Laser_init 1550 (1 / 1000))"

definition waveguide_c :: Component where
  "waveguide_c = projr (Waveguide_init 100 (Some [(''propagation'', 0)]))"

definition photodetector_c :: Component where
  "photodetector_c = projr (Photodetector_init 1)"

definition mux_c :: "int \<Rightarrow> Component" where
  "mux_c n = projr (Mux_init n (Some [(''insertion'', 0)]))"

definition demux_c :: Component where
  "demux_c = projr (Demux_init [1550, 1310, 1490] (Some [(''insertion'', 0)]))"

definition example_store :: store where
  "example_store = (\<lambda>_. laser_c)
     (1 := waveguide_c, 2 := photodetector_c, 3 := mux_c 1, 4 := waveguide_c,
      5 := demux_c, 6 := mux_c 3, 7 := mux_c 4)"

definition world0 :: world where
  "world0 = \<lparr>heap = example_store, sim = PhotonicSimulation_init\<rparr>"

text \<open>A: one waveguide, registered and connected to nothing.\<close>

definition build_A :: "error + world" where
  "build_A = ebind (add_component world0 1 (Some ''W'')) (\<lambda>r. Inr (snd r))"

definition world_A :: world where
  "world_A = projr build_A"

text \<open>B: the waveguide registered before the laser that feeds it.\<close>

definition build_B :: "error + world" where
  "build_B =
     ebind (add_component world0 1 (Some ''W'')) (\<lambda>r1.
     ebind (add_component (snd r1) 0 (Some ''L'')) (\<lambda>r2.
       connect (snd r2) (ByName ''L'') (ByName ''W'') OPTICAL 0 0 None))"

definition world_B :: world where
  "world_B = projr build_B"


text \<open>C: two waveguides feeding each other.\<close>

definition build_C :: "error + world" where
  "build_C =
     ebind (add_component world0 1 (Some ''W1'')) (\<lambda>r1.
     ebind (add_component (snd r1) 4 (Some ''W2'')) (\<lambda>r2.
     ebind (connect (snd r2) (ByName ''W1'') (ByName ''W2'') OPTICAL 0 0 None) (\<lambda>w3.
       connect w3 (ByName ''W2'') (ByName ''W1'') OPTICAL 0 0 None)))"

definition world_C :: world where
  "world_C = projr build_C"

text \<open>D: a laser with an observer on its optical output; D2 is D after two ticks.\<close>

definition build_D :: "error + world" where
  "build_D =
     ebind (add_component world0 0 None) (\<lambda>r1.
     ebind (create_observer (snd r1) (ByRef 0) OPTICAL 0 None) (\<lambda>r2. Inr (snd r2)))"

definition world_D :: world where
  "world_D = projr build_D"

definition world_D1 :: world where
  "world_D1 = projr (the (update world_D))"


text \<open>
  E: photodetector, waveguide and laser, registered in this order; the laser is
  connected to the waveguide and to the photodetector. E1 is E after one tick, E2 is E1
  after the waveguide's output was connected to the photodetector's input.
\<close>

definition build_E :: "error + world" where
  "build_E =
     ebind (add_component world0 2 (Some ''PD'')) (\<lambda>r1.
     ebind (add_component (snd r1) 1 (Some ''W'')) (\<lambda>r2.
     ebind (add_component (snd r2) 0 (Some ''L'')) (\<lambda>r3.
     ebind (connect (snd r3) (ByName ''L'') (ByName ''W'') OPTICAL 0 0 None) (\<lambda>w4.
       connect w4 (ByName ''L'') (ByName ''PD'') OPTICAL 0 0 None))))"

definition world_E :: world where
  "world_E = projr build_E"

definition world_E1 :: world where
  "world_E1 = projr (the (update world_E))"

definition world_E2 :: world where
  "world_E2 = projr (connect world_E1 (ByName ''W'') (ByName ''PD'') OPTICAL 0 0 None)"

text \<open>F: the laser connected to the only input of a 1-input multiplexer.\<close>

definition build_F :: "error + world" where
  "build_F =
     ebind (add_component world0 0 (Some ''L'')) (\<lambda>r1.
     ebind (add_component (snd r1) 3 (Some ''M'')) (\<lambda>r2.
       connect (snd r2) (ByName ''L'') (ByName ''M'') OPTICAL 0 0 None))"

definition world_F :: world where
  "world_F = projr build_F"

text \<open>F4: the laser connected to each of the four inputs of a 4-input multiplexer.\<close>

definition build_F4 :: "error + world" where
  "build_F4 =
     ebind (add_component world0 0 (Some ''L'')) (\<lambda>r1.
     ebind (add_component (snd r1) 7 (Some ''M'')) (\<lambda>r2.
     ebind (connect (snd r2) (ByName ''L'') (ByName ''M'') OPTICAL 0 0 None) (\<lambda>w3.
     ebind (connect w3 (ByName ''L'') (ByName ''M'') OPTICAL 0 1 None) (\<lambda>w4.
     ebind (connect w4 (ByName ''L'') (ByName ''M'') OPTICAL 0 2 None) (\<lambda>w5.
       connect w5 (ByName ''L'') (ByName ''M'') OPTICAL 0 3 None)))))"

definition world_F4 :: world where
  "world_F4 = projr build_F4"

text \<open>
  G: laser, demultiplexer for the wavelengths 1550, 1310 and 1490, and a 3-input
  multiplexer; output \<open>i\<close> of the demultiplexer feeds input \<open>i\<close> of the multiplexer.
\<close>

definition build_G :: "error + world" where
  "build_G =
     ebind (add_component world0 0 (Some ''L'')) (\<lambda>r1.
     ebind (add_component (snd r1) 5 (Some ''D'')) (\<lambda>r2.
     ebind (add_component (snd r2) 6 (Some ''M'')) (\<lambda>r3.
     ebind (connect (snd r3) (ByName ''L'') (ByName ''D'') OPTICAL 0 0 None) (\<lambda>w4.
     ebind (connect w4 (ByName ''D'') (ByName ''M'') OPTICAL 0 0 None) (\<lambda>w5.
     ebind (connect w5 (ByName ''D'') (ByName ''M'') OPTICAL 1 1 None) (\<lambda>w6.
       connect w6 (ByName ''D'') (ByName ''M'') OPTICAL 2 2 None))))))"

definition world_G :: world where
  "world_G = projr build_G"

section \<open>Properties of data\_types.py\<close>



lemma keys_setitem_set: "set (keys (setitem d k v)) = insert k (set (keys d))"
  by (induction d) (auto simp: keys_def)

lemma dict_inv_setitem: "dict_inv d \<Longrightarrow> dict_inv (setitem d k v)"
proof (induction d)
  case Nil
  then show ?case by (simp add: dict_inv_def)
next
  case (Cons p ps)
  have "set (map fst (setitem ps k v)) = insert k (set (map fst ps))"
    using keys_setitem_set [of ps k v] by (simp add: keys_def)
  with Cons show ?case by (auto simp: dict_inv_def)
qed






text \<open>
  What the expression of \<open>in_range\<close> amounts to: with both bounds set only the upper
  bound is tested; a value inside the bounds, each relaxed by its own sentinel, is always
  accepted.
\<close>

lemma in_range_both_bounds:
  "range_min r \<noteq> - 1 \<Longrightarrow> range_max r \<noteq> - 1 \<Longrightarrow> in_range r v \<longleftrightarrow> v \<le> range_max r"
  by (auto simp: in_range_def)

lemma in_range_inside_bounds:
  "(range_min r = - 1 \<or> range_min r \<le> v) \<Longrightarrow> (range_max r = - 1 \<or> v \<le> range_max r) \<Longrightarrow>
   in_range r v"
  by (auto simp: in_range_def)

text \<open>
  C4. The claim: \<open>in_range value\<close> holds exactly when \<open>value\<close> is at least \<open>min\<close> and at
  most \<open>max\<close>, each side dropped only by its own sentinel \<open>-1\<close>. The source's expression
  lacks the parentheses for that: for the range \<open>(1, 1)\<close> it accepts the value 0, which is
  below the minimum.
\<close>

theorem in_range_accepts_below_min:
  "in_range \<lparr>range_min = 1, range_max = 1\<rparr> 0 \<and>
   \<not> ((range_min \<lparr>range_min = 1, range_max = 1\<rparr> = - 1 \<or> (0::int) \<ge> range_min \<lparr>range_min = 1, range_max = 1\<rparr>) \<and>
      (range_max \<lparr>range_min = 1, range_max = 1\<rparr> = - 1 \<or> (0::int) \<le> range_max \<lparr>range_min = 1, range_max = 1\<rparr>))"
  by (simp add: in_range_def)



section \<open>Properties of the resolver loop\<close>

lemma py_get_nat: "i < length xs \<Longrightarrow> py_get xs (int i) = Inr (xs ! i)"
  by (simp add: py_get_def py_index_def)

lemma filter_fst_neq_nth:
  "distinct (map fst xs) \<Longrightarrow> i < length xs \<Longrightarrow>
   filter (\<lambda>p. fst p \<noteq> fst (xs ! i)) xs = take i xs @ drop (Suc i) xs"
proof (induction xs arbitrary: i)
  case Nil
  then show ?case by simp
next
  case (Cons p ps)
  show ?case
  proof (cases i)
    case 0
    have "\<forall>q \<in> set ps. fst q \<noteq> fst p" using Cons.prems(1) by (force simp: image_iff)
    then have "filter (\<lambda>q. fst q \<noteq> fst p) ps = ps" by (simp add: filter_id_conv)
    with 0 show ?thesis by simp
  next
    case (Suc j)
    then have j: "j < length ps" using Cons.prems(2) by simp
    then have "ps ! j \<in> set ps" by simp
    then have "fst p \<noteq> fst (ps ! j)" using Cons.prems(1) by (force simp: image_iff)
    moreover have "filter (\<lambda>q. fst q \<noteq> fst (ps ! j)) ps = take j ps @ drop (Suc j) ps"
      using Cons.IH [OF _ j] Cons.prems(1) by simp
    ultimately show ?thesis using Suc by simp
  qed
qed

lemma move_to_end_split:
  assumes "dict_inv (pre @ x # rest)"
  shows "move_to_end (pre @ x # rest) (fst x) = Inr (pre @ rest @ [x])"
proof -
  let ?xs = "pre @ x # rest"
  have d: "distinct (map fst ?xs)" using assms by (simp add: dict_inv_def)
  have i: "length pre < length ?xs" by simp
  have nth: "?xs ! length pre = x" by simp
  have "(fst x, snd x) \<in> set ?xs" by simp
  then have m: "map_of ?xs (fst x) = Some (snd x)" using d by (simp only: map_of_eq_Some_iff)
  have "filter (\<lambda>p. fst p \<noteq> fst (?xs ! length pre)) ?xs = take (length pre) ?xs @ drop (Suc (length pre)) ?xs"
    using d i by (rule filter_fst_neq_nth)
  then have f: "filter (\<lambda>p. fst p \<noteq> fst x) ?xs = pre @ rest" by (simp only: nth) simp
  show ?thesis unfolding move_to_end_def by (simp only: m f) simp
qed

lemma scan_connections_None:
  "None \<in> set conns \<Longrightarrow> scan_connections conns U b = Inl AttributeError"
  by (induction conns U b rule: scan_connections.induct) auto

lemma scan_connections_Some:
  "None \<notin> set conns \<Longrightarrow>
   scan_connections conns U b = Inr (b \<or> (\<exists>ep. Some ep \<in> set conns \<and> component ep \<in> set U))"
  by (induction conns U b rule: scan_connections.induct) auto

lemma set_feeders: "set (feeders h c) = {component ep | ep. Some ep \<in> set (input_connections h c)}"
  by (auto simp: feeders_def split: option.splits)

lemma scan_connections_feeders:
  "None \<notin> set (input_connections h c) \<Longrightarrow>
   scan_connections (input_connections h c) U False = Inr (\<exists>b \<in> set (feeders h c). b \<in> set U)"
  by (auto simp: scan_connections_Some set_feeders)


lemma resolve_loop_step:
  assumes "dict_inv (pre @ x # rest)"
  shows "resolve_loop h (pre @ x # rest) (length pre) it =
     (if it = Suc (length rest) then Some (Inl (RuntimeError CircularReferences))
      else case scan_connections (input_connections h (snd x)) (values_of (x # rest)) False of
             Inl e \<Rightarrow> Some (Inl e)
           | Inr has_dependencies \<Rightarrow>
               if has_dependencies then resolve_loop h (pre @ rest @ [x]) (length pre) (it + 1)
               else resolve_loop h ((pre @ [x]) @ rest) (length (pre @ [x])) 0)"
proof -
  have g: "py_get (pre @ x # rest) (int (length pre)) = Inr x"
    using py_get_nat [of "length pre" "pre @ x # rest"] by simp
  have m: "move_to_end (pre @ x # rest) (fst x) = Inr (pre @ rest @ [x])"
    using assms by (rule move_to_end_split)
  show ?thesis
    by (subst resolve_loop.simps)
       (simp add: g m values_of_def case_prod_beta split: sum.splits)
qed

lemma resolve_loop_unset_slot_aux:
  "m = (length u, length u - it) \<Longrightarrow> dict_inv (pre @ u) \<Longrightarrow>
   \<exists>p \<in> set (take (length u - it) u). has_unset_slot h (snd p) \<Longrightarrow>
   resolve_loop h (pre @ u) (length pre) it = Some (Inl AttributeError)"
proof (induction m arbitrary: pre u it rule: wf_induct_rule [OF wf_lex_prod [OF wf_less_than wf_less_than]])
  case (1 m)
  from "1.prems"(3) obtain p where p: "p \<in> set (take (length u - it) u)" "has_unset_slot h (snd p)"
    by blast
  then have "u \<noteq> []" by auto
  then obtain x rest where u: "u = x # rest" by (cases u) auto
  from p(1) have it: "it < length u" by (cases "it < length u") auto
  have step: "resolve_loop h (pre @ u) (length pre) it =
      (case scan_connections (input_connections h (snd x)) (values_of (x # rest)) False of
             Inl e \<Rightarrow> Some (Inl e)
           | Inr has_dependencies \<Rightarrow>
               if has_dependencies then resolve_loop h (pre @ rest @ [x]) (length pre) (it + 1)
               else resolve_loop h ((pre @ [x]) @ rest) (length (pre @ [x])) 0)"
    using resolve_loop_step [of pre x rest h it] "1.prems"(2) it by (simp add: u)
  show ?case
  proof (cases "has_unset_slot h (snd x)")
    case True
    then show ?thesis
      by (simp add: step has_unset_slot_def scan_connections_None)
  next
    case False
    then have px: "p \<noteq> x" using p(2) by auto
    from False have scan: "scan_connections (input_connections h (snd x)) (values_of (x # rest)) False =
        Inr (\<exists>b \<in> set (feeders h (snd x)). b \<in> set (values_of (x # rest)))"
      by (simp add: has_unset_slot_def scan_connections_feeders)
    have "length u - it = Suc (length rest - it)" using it by (simp add: u Suc_diff_le)
    with p(1) px have prest: "p \<in> set (take (length rest - it) rest)"
      by (simp add: u)
    show ?thesis
    proof (cases "\<exists>b \<in> set (feeders h (snd x)). b \<in> set (values_of (x # rest))")
      case True
      have less: "((length (rest @ [x]), length (rest @ [x]) - (it + 1)), m) \<in> less_than <*lex*> less_than"
        using it by (simp add: "1.prems"(1) u)
      have inv: "dict_inv (pre @ rest @ [x])"
        using "1.prems"(2) by (auto simp: dict_inv_def u)
      have ex: "\<exists>p \<in> set (take (length (rest @ [x]) - (it + 1)) (rest @ [x])). has_unset_slot h (snd p)"
        using prest p(2) by auto
      have "resolve_loop h (pre @ rest @ [x]) (length pre) (it + 1) = Some (Inl AttributeError)"
        by (rule "1.IH" [OF less refl inv ex])
      with True show ?thesis by (simp only: step scan) simp
    next
      case False
      have less: "((length rest, length rest - 0), m) \<in> less_than <*lex*> less_than"
        by (simp add: "1.prems"(1) u)
      have inv: "dict_inv ((pre @ [x]) @ rest)"
        using "1.prems"(2) by (simp add: u)
      have "p \<in> set rest" using prest by (rule in_set_takeD)
      then have ex: "\<exists>p \<in> set (take (length rest - 0) rest). has_unset_slot h (snd p)"
        using p(2) by auto
      have "resolve_loop h ((pre @ [x]) @ rest) (length (pre @ [x])) 0 = Some (Inl AttributeError)"
        by (rule "1.IH" [OF less refl inv ex])
      with False show ?thesis by (simp only: step scan) simp
    qed
  qed
qed

lemma resolve_loop_unset_slot:
  assumes "dict_inv comps" and "\<exists>c \<in> set (values_of comps). has_unset_slot h c"
  shows "resolve_loop h comps 0 0 = Some (Inl AttributeError)"
proof -
  from assms(2) have "\<exists>p \<in> set (take (length comps - 0) comps). has_unset_slot h (snd p)"
    by (auto simp: values_of_def)
  with resolve_loop_unset_slot_aux [of _ comps 0 "[]" h] assms(1) show ?thesis by simp
qed













section \<open>Properties of recording\<close>













lemma add_component_flag:
  "add_component w c n = Inr r \<Longrightarrow> \<not> dependencies_resolved (sim (snd r))"
  by (auto simp: add_component_def Let_def split: if_splits)


lemma connect_keeps_flag:
  "connect w s t pt sp tp None = Inr w2 \<Longrightarrow> dependencies_resolved (sim w2) = dependencies_resolved (sim w)"
  by (auto simp: connect_def ebind_def split: sum.splits)

lemma connect_keeps_components:
  "connect w s t pt sp tp None = Inr w2 \<Longrightarrow> components (sim w2) = components (sim w)"
  by (auto simp: connect_def ebind_def split: sum.splits)


section \<open>Evaluating the example circuits\<close>

lemmas init_defs = Component_init_def in_range_def port_types_def PortsCount_of_def IntRange_of_def
  ranges3_def py_replicate_def set_output_def py_set_def py_index_def db_to_factor_def keys_def
  Laser_init_def Waveguide_init_def Photodetector_init_def Mux_init_def Demux_init_def
  Splitter_init_def

lemmas example_defs = laser_c_def waveguide_c_def photodetector_c_def mux_c_def demux_c_def
  example_store_def world0_def

lemmas sim_defs = add_component_def connect_def connect_to_def connect_direct_def ebind_def
  PhotonicSimulation_init_def py_get_def values_of_def Let_def create_observer_def Observer_init_def

lemmas update_defs = update_def resolve_dependencies_def resolve_loop.simps input_connections_def
  move_to_end_def update_component_def Waveguide_update_def Photodetector_update_def
  Mux_update_def Demux_update_def get_input_def get_output_def loss_factor_def store_output_def
  record_sample_def

lemma char_of_48: "char_of (48::nat) = CHR ''0''"
  by code_simp

lemma str_0: "str 0 = ''0''"
  by (simp add: str.simps digit_char_def char_of_48)

lemma first_available_name_empty: "first_available_name d [] 0 = d @ '' 0''"
  by (simp add: first_available_name.simps str_0)


lemma world_A_sim: "sim world_A = \<lparr>components = [(''W'', 1)], observers = [], dependencies_resolved = False\<rparr>"
  by (simp add: world_A_def build_A_def example_defs init_defs sim_defs)

lemma world_A_slots: "connections_in (heap world_A (Suc 0)) OPTICAL = [None]"
  by (simp add: world_A_def build_A_def example_defs init_defs sim_defs)



lemma world_B_built: "build_B = Inr world_B"
  by (simp add: world_B_def build_B_def example_defs init_defs sim_defs)





lemma world_C_built: "build_C = Inr world_C"
  by (simp add: world_C_def build_C_def example_defs init_defs sim_defs)



lemma world_D_built: "build_D = Inr world_D"
  by (simp add: world_D_def build_D_def example_defs init_defs sim_defs first_available_name_empty)

lemma world_D_sim:
  "sim world_D = \<lparr>components = [(''Laser 0'', 0)],
     observers = [(''Observer 0'', \<lparr>data = [], obs_port_type = OPTICAL, obs_target = ByRef 0, obs_port_id = 0\<rparr>)],
     dependencies_resolved = False\<rparr>"
  by (simp add: world_D_def build_D_def example_defs init_defs sim_defs first_available_name_empty)

lemma world_D_update: "update world_D = Some (Inr world_D1)"
  by (simp add: world_D1_def world_D_def build_D_def example_defs init_defs sim_defs update_defs
      first_available_name_empty)

lemma world_D1_sim:
  "sim world_D1 = \<lparr>components = [(''Laser 0'', 0)],
     observers = [(''Observer 0'', \<lparr>data = [Power [(1550, 1 / 1000)]], obs_port_type = OPTICAL,
                     obs_target = ByRef 0, obs_port_id = 0\<rparr>)],
     dependencies_resolved = True\<rparr>"
  by (simp add: world_D1_def world_D_def build_D_def example_defs init_defs sim_defs update_defs
      first_available_name_empty)




section \<open>Dependency resolution\<close>


text \<open>
  C10. Dependency resolution needs an endpoint in every input slot of every registered
  component. If a registered component has an unset (\<open>None\<close>) input slot of any port
  type, the resolver reads \<open>connection.component\<close> of that slot and fails with
  \<open>AttributeError\<close>; it neither treats the component as free of dependencies nor
  reports a cycle, whatever the rest of the graph is. An \<open>update\<close> that has to resolve
  the order fails in the same way.
\<close>

theorem unset_input_slot_fails_resolution:
  assumes "dict_inv (components (sim w))"
    and "\<exists>c \<in> set (values_of (components (sim w))). \<exists>pt. None \<in> set (connections_in (heap w c) pt)"
  shows "resolve_dependencies w = Some (Inl AttributeError) \<and>
         (\<not> dependencies_resolved (sim w) \<longrightarrow> update w = Some (Inl AttributeError))"
proof -
  from assms(2) obtain c pt where c: "c \<in> set (values_of (components (sim w)))"
    "None \<in> set (connections_in (heap w c) pt)" by blast
  have "pt \<in> set port_types" by (cases pt) (simp_all add: port_types_def)
  with c(2) have "has_unset_slot (heap w) c"
    by (auto simp: has_unset_slot_def input_connections_def)
  with c(1) have "resolve_loop (heap w) (components (sim w)) 0 0 = Some (Inl AttributeError)"
    by (intro resolve_loop_unset_slot [OF assms(1)]) blast
  then have "resolve_dependencies w = Some (Inl AttributeError)"
    by (simp add: resolve_dependencies_def)
  then show ?thesis by (simp add: update_def)
qed

text \<open>The example A: a registered waveguide whose input is not connected.\<close>

theorem unset_input_slot_fails_resolution_witness:
  "dict_inv (components (sim world_A)) \<and>
   (\<exists>c \<in> set (values_of (components (sim world_A))). \<exists>pt. None \<in> set (connections_in (heap world_A c) pt)) \<and>
   \<not> dependencies_resolved (sim world_A) \<and>
   resolve_dependencies world_A = Some (Inl AttributeError) \<and>
   update world_A = Some (Inl AttributeError)"
proof -
  have d: "dict_inv (components (sim world_A))"
    by (simp add: world_A_sim dict_inv_def)
  have "None \<in> set (connections_in (heap world_A (Suc 0)) OPTICAL)"
    by (simp add: world_A_slots)
  then have e: "\<exists>c \<in> set (values_of (components (sim world_A))). \<exists>pt. None \<in> set (connections_in (heap world_A c) pt)"
    by (auto simp: world_A_sim values_of_def)
  have f: "\<not> dependencies_resolved (sim world_A)" by (simp add: world_A_sim)
  from unset_input_slot_fails_resolution [OF d e] d e f show ?thesis by blast
qed




section \<open>The tick and the observers\<close>



lemma observer_data_no_observers: "observers s = [] \<Longrightarrow> observer_data s = Inr []"
  by (simp add: observer_data_def keys_def)

lemma observer_data_some_observer: "observers s \<noteq> [] \<Longrightarrow> observer_data s = Inl AttributeError"
  by (cases "observers s") (simp_all add: observer_data_def keys_def ebind_def)

text \<open>
  C2. The claim: reading the observer data returns every observer's recorded sequence
  and does not fail. The source iterates over the dictionary of observers, which yields
  the names, and reads \<open>data\<close> from a name: in the example D, with its one observer,
  the read raises \<open>AttributeError\<close>, before the first tick and after it.
\<close>

theorem observer_data_raises:
  "build_D = Inr world_D \<and>
   keys (observers (sim world_D)) = [''Observer 0''] \<and>
   observer_data (sim world_D) = Inl AttributeError \<and>
   update world_D = Some (Inr world_D1) \<and>
   map (\<lambda>p. data (snd p)) (observers (sim world_D1)) = [[Power [(1550, 1 / 1000)]]] \<and>
   observer_data (sim world_D1) = Inl AttributeError"
  by (simp add: world_D_built world_D_update world_D_sim world_D1_sim observer_data_def keys_def ebind_def)

lemma world_E_built: "build_E = Inr world_E"
  by (simp add: world_E_def build_E_def example_defs init_defs sim_defs)

lemma world_E_update: "update world_E = Some (Inr world_E1)"
  by (simp add: world_E1_def world_E_def build_E_def example_defs init_defs sim_defs update_defs)

lemma world_E1_sim:
  "sim world_E1 = \<lparr>components = [(''L'', 0), (''PD'', 2), (''W'', 1)], observers = [],
     dependencies_resolved = True\<rparr>"
  by (simp add: world_E1_def world_E_def build_E_def example_defs init_defs sim_defs update_defs)

lemma world_E2_connected:
  "connect world_E1 (ByName ''W'') (ByName ''PD'') OPTICAL 0 0 None = Inr world_E2"
  by (simp add: world_E2_def world_E1_def world_E_def build_E_def example_defs init_defs sim_defs
      update_defs)

lemma world_E2_feeders: "feeders (heap world_E2) 2 = [1]"
  by (simp add: world_E2_def world_E1_def world_E_def build_E_def example_defs init_defs sim_defs
      update_defs feeders_def)

lemma world_E2_update:
  "\<exists>w3. update world_E2 = Some (Inr w3) \<and> components (sim w3) = [(''L'', 0), (''PD'', 2), (''W'', 1)]"
  by (simp add: world_E2_def world_E1_def world_E_def build_E_def example_defs init_defs sim_defs
      update_defs)

text \<open>
  C5. The claim: every \<open>connect\<close> and every \<open>add_component\<close> invalidates the cached
  order. \<open>add_component\<close> does (and so does a \<open>connect\<close> with a waveguide, which
  registers the waveguide); a \<open>connect\<close> without a waveguide leaves the flag as it was.
  In the example E the first tick finds the order laser, photodetector, waveguide. Then
  the waveguide is connected to the photodetector: the flag stays set, and the next
  tick keeps the order in which the photodetector is evaluated before the waveguide
  that now feeds it.
\<close>

theorem connect_keeps_cached_order:
  "build_E = Inr world_E \<and>
   update world_E = Some (Inr world_E1) \<and>
   dependencies_resolved (sim world_E1) \<and>
   components (sim world_E1) = [(''L'', 0), (''PD'', 2), (''W'', 1)] \<and>
   connect world_E1 (ByName ''W'') (ByName ''PD'') OPTICAL 0 0 None = Inr world_E2 \<and>
   dependencies_resolved (sim world_E2) \<and>
   components (sim world_E2) = [(''L'', 0), (''PD'', 2), (''W'', 1)] \<and>
   feeders (heap world_E2) 2 = [1] \<and>
   (\<exists>w3. update world_E2 = Some (Inr w3) \<and> components (sim w3) = [(''L'', 0), (''PD'', 2), (''W'', 1)])"
proof -
  have "dependencies_resolved (sim world_E2) = dependencies_resolved (sim world_E1)"
    using world_E2_connected by (rule connect_keeps_flag)
  moreover have "components (sim world_E2) = components (sim world_E1)"
    using world_E2_connected by (rule connect_keeps_components)
  ultimately show ?thesis
    using world_E_built world_E_update world_E2_connected world_E2_feeders world_E2_update
    by (simp add: world_E1_sim)
qed

section \<open>Construction and the multiplexers\<close>

text \<open>
  C3. The claim: construction raises whenever a port count, input or output, lies
  outside the declared range. \<open>Component.__init__\<close> tests the input counts only, and
  with \<open>in_range\<close>, which does not test the lower bound of a range with both bounds
  set. The photodetector's own constructor passes 0 analog inputs against the declared
  range \<open>(1, 1)\<close> (and 0 optical and 1 analog outputs against \<open>(1, 1)\<close> and \<open>(0, 0)\<close>) and
  succeeds; a splitter of size 0 against the declared output range \<open>(1, -1)\<close> succeeds.
\<close>

theorem construction_accepts_counts_out_of_range:
  "(\<exists>c. Photodetector_init 1 = Inr c) \<and>
   ports_in_ranges (component_type_attributes (Photodetector 1)) ANALOG = IntRange_of 1 1 \<and>
   ports_count_getitem (PortsCount_of 1 0 0) ANALOG = 0 \<and>
   ports_out_ranges (component_type_attributes (Photodetector 1)) OPTICAL = IntRange_of 1 1 \<and>
   ports_count_getitem (PortsCount_of 0 1 0) OPTICAL = 0 \<and>
   (\<exists>c. Splitter_init 0 (Some [(''insertion'', 1)]) = Inr c \<and> outputs c OPTICAL = []) \<and>
   ports_out_ranges (component_type_attributes Splitter) OPTICAL = IntRange_of 1 (- 1)"
  by (simp add: init_defs)

lemma world_F_built: "build_F = Inr world_F"
  by (simp add: world_F_def build_F_def example_defs init_defs sim_defs)

lemma world_F_mux: "update_component (heap world_F) 3 = Inl IndexError"
  by (simp add: world_F_def build_F_def example_defs init_defs sim_defs update_defs)

lemma world_F_update: "update world_F = Some (Inl IndexError)"
  by (simp add: world_F_def build_F_def example_defs init_defs sim_defs update_defs)

lemma world_F4_built: "build_F4 = Inr world_F4"
  by (simp add: world_F4_def build_F4_def example_defs init_defs sim_defs)

lemma world_F4_mux:
  "\<exists>h. update_component (heap world_F4) 7 = Inr h \<and> outputs (h 7) OPTICAL = [Power [(1550, 3 / 1000)]]"
  by (simp add: world_F4_def build_F4_def example_defs init_defs sim_defs update_defs
      add_def getitem_def mul_def copy_def)

lemma world_F4_inputs:
  "map (\<lambda>i. get_input (heap world_F4) 7 OPTICAL i) [0, 1, 2, 3] =
     [Inr (Power [(1550, 1 / 1000)]), Inr (Power [(1550, 1 / 1000)]),
      Inr (Power [(1550, 1 / 1000)]), Inr (Power [(1550, 1 / 1000)])]"
  by (simp add: world_F4_def build_F4_def example_defs init_defs sim_defs update_defs)

text \<open>
  C6. The claim: a multiplexer with \<open>N\<close> connected inputs, any \<open>N \<ge> 1\<close>, outputs the sum
  over all \<open>N\<close> inputs and does not fail. \<open>Mux.update\<close> runs its loop over
  \<open>range(len(self.connections_in))\<close>, the length of the dictionary keyed by port type,
  which is 3. With one input (example F) the second round reads input 1 and raises
  \<open>IndexError\<close>, and so does the tick; with four inputs of 1 mW each (example F4) the
  output is 3 mW, the fourth input is never read.
\<close>

theorem Mux_update_reads_three_inputs:
  "build_F = Inr world_F \<and>
   update_component (heap world_F) 3 = Inl IndexError \<and>
   update world_F = Some (Inl IndexError) \<and>
   build_F4 = Inr world_F4 \<and>
   map (\<lambda>i. get_input (heap world_F4) 7 OPTICAL i) [0, 1, 2, 3] =
     [Inr (Power [(1550, 1 / 1000)]), Inr (Power [(1550, 1 / 1000)]),
      Inr (Power [(1550, 1 / 1000)]), Inr (Power [(1550, 1 / 1000)])] \<and>
   (\<exists>h. update_component (heap world_F4) 7 = Inr h \<and> outputs (h 7) OPTICAL = [Power [(1550, 3 / 1000)]])"
  using world_F_built world_F_mux world_F_update world_F4_built world_F4_inputs world_F4_mux
  by blast

lemma world_G_built: "build_G = Inr world_G"
  by (simp add: world_G_def build_G_def example_defs init_defs sim_defs)

lemma world_G_demux_mux:
  "\<exists>h. update_component (heap world_G) 5 = Inr h \<and>
        outputs (h 5) OPTICAL = [Number (1 / 1000), Number 0, Number 0] \<and>
        update_component h 6 = Inl AttributeError"
  by (simp add: world_G_def build_G_def example_defs init_defs sim_defs update_defs getitem_def
      numeral_3_eq_3 numeral_2_eq_2)

lemma world_G_update: "update world_G = Some (Inl AttributeError)"
  by (simp add: world_G_def build_G_def example_defs init_defs sim_defs update_defs getitem_def
      numeral_3_eq_3 numeral_2_eq_2)

text \<open>
  C7. The claim: a spectrum sent through a demultiplexer and then a multiplexer over
  the same wavelengths comes out with its total power times the two insertion factors.
  \<open>Demux.update\<close> stores in each optical output the number
  \<open>input_light[wavelength] * factor\<close>, not an \<open>OpticalPower\<close>; \<open>Mux.update\<close> adds its
  inputs to an \<open>OpticalPower\<close>, and adding a number raises \<open>AttributeError\<close>. In the
  example G (three wavelengths, three multiplexer inputs, all connected) the
  demultiplexer's outputs are the numbers 0.001, 0 and 0, the multiplexer's update
  raises, and so does the tick.
\<close>

theorem Demux_Mux_chain_raises:
  "build_G = Inr world_G \<and>
   (\<exists>h. update_component (heap world_G) 5 = Inr h \<and>
        outputs (h 5) OPTICAL = [Number (1 / 1000), Number 0, Number 0] \<and>
        update_component h 6 = Inl AttributeError) \<and>
   update world_G = Some (Inl AttributeError)"
  using world_G_built world_G_demux_mux world_G_update by blast

end
